theory Spec2Isabelle
  imports Complex_Main "HOL-Library.Sublist" "HOL-Library.Char_ord" "HOL-Library.List_Lexorder"
begin

section \<open>Python strings\<close>

text \<open>
  Python \<^verbatim>\<open>str\<close> values are modelled as \<^typ>\<open>string\<close>. The operations below are the
  ASCII behaviour of the built-in methods the agents use: \<^verbatim>\<open>lower\<close>, the substring
  test \<^verbatim>\<open>k in s\<close>, \<^verbatim>\<open>split()\<close> on runs of whitespace, \<^verbatim>\<open>join\<close>, \<^verbatim>\<open>count\<close> of a
  one-character string, \<^verbatim>\<open>title\<close>, \<^verbatim>\<open>isalnum\<close> and the decimal rendering of an
  integer inside an f-string.
\<close>

definition upper_letters :: string where
  "upper_letters = ''ABCDEFGHIJKLMNOPQRSTUVWXYZ''"

definition lower_letters :: string where
  "lower_letters = ''abcdefghijklmnopqrstuvwxyz''"

definition digit_chars :: string where
  "digit_chars = ''0123456789''"

definition lower_char :: "char \<Rightarrow> char" where
  "lower_char c = (case map_of (zip upper_letters lower_letters) c of Some d \<Rightarrow> d | None \<Rightarrow> c)"


definition str_lower :: "string \<Rightarrow> string" where
  "str_lower s = map lower_char s"

definition is_alpha :: "char \<Rightarrow> bool" where
  "is_alpha c = (c \<in> set upper_letters \<or> c \<in> set lower_letters)"

definition is_alnum :: "char \<Rightarrow> bool" where
  "is_alnum c = (is_alpha c \<or> c \<in> set digit_chars)"

definition is_space :: "char \<Rightarrow> bool" where
  "is_space c = (c \<in> set [CHR '' '', CHR 0x09, CHR 0x0A, CHR 0x0B, CHR 0x0C, CHR 0x0D,
                           CHR 0x1C, CHR 0x1D, CHR 0x1E, CHR 0x1F])"

fun startswith :: "string \<Rightarrow> string \<Rightarrow> bool" where
  "startswith s [] = True"
| "startswith [] (p # ps) = False"
| "startswith (c # cs) (p # ps) = (c = p \<and> startswith cs ps)"

text \<open>\<open>str_in k s\<close> is Python's \<^verbatim>\<open>k in s\<close> on strings.\<close>

fun str_in :: "string \<Rightarrow> string \<Rightarrow> bool" where
  "str_in k [] = (k = [])"
| "str_in k (c # cs) = (startswith (c # cs) k \<or> str_in k cs)"

text \<open>\<open>any_in kws s\<close> is \<^verbatim>\<open>any(kw in s for kw in kws)\<close>.\<close>

definition any_in :: "string list \<Rightarrow> string \<Rightarrow> bool" where
  "any_in kws s = list_ex (\<lambda>kw. str_in kw s) kws"

text \<open>\<open>split_words w s\<close> scans \<open>s\<close> with the word \<open>w\<close> read so far.\<close>

fun split_words :: "string \<Rightarrow> string \<Rightarrow> string list" where
  "split_words w [] = (if w = [] then [] else [w])"
| "split_words w (c # cs) =
     (if is_space c then (if w = [] then split_words [] cs else w # split_words [] cs)
      else split_words (w @ [c]) cs)"

definition str_split :: "string \<Rightarrow> string list" where
  "str_split s = split_words [] s"

fun str_join :: "string \<Rightarrow> string list \<Rightarrow> string" where
  "str_join sep [] = []"
| "str_join sep [w] = w"
| "str_join sep (w # v # ws) = w @ sep @ str_join sep (v # ws)"

definition str_count :: "string \<Rightarrow> char \<Rightarrow> nat" where
  "str_count s c = count_list s c"



definition digit_char :: "nat \<Rightarrow> char" where
  "digit_char d = digit_chars ! d"

fun str_of_nat :: "nat \<Rightarrow> string" where
  "str_of_nat n = (if n < 10 then [digit_char n] else str_of_nat (n div 10) @ [digit_char (n mod 10)])"

declare str_of_nat.simps [simp del]

section \<open>Coordinator: query classification and planning\<close>

text \<open>\<^verbatim>\<open>core/config.py\<close>: the three complexity levels.\<close>

datatype complexity = COMPLEXITY_SIMPLE | COMPLEXITY_MEDIUM | COMPLEXITY_COMPLEX

text \<open>The keyword lists of \<^verbatim>\<open>Coordinator._analyze_complexity\<close>.\<close>

definition complex_keywords :: "string list" where
  "complex_keywords =
     [''compare'', ''analyze'', ''evaluate'', ''research and'',
      ''find and'', ''identify and'', ''synthesize'', ''trade-offs'',
      ''trade-off'', ''advantages and disadvantages'', ''pros and cons'']"

definition medium_keywords :: "string list" where
  "medium_keywords =
     [''explain'', ''describe'', ''how'', ''why'', ''relationship'',
      ''difference'', ''similarity'', ''methodology'']"

definition memory_keywords :: "string list" where
  "memory_keywords =
     [''earlier'', ''previous'', ''before'', ''discussed'',
      ''we talked'', ''mentioned'', ''said'']"

definition analyze_complexity :: "string \<Rightarrow> complexity" where
  "analyze_complexity query =
     (let query_lower = str_lower query in
      if any_in memory_keywords query_lower then COMPLEXITY_SIMPLE
      else if any_in complex_keywords query_lower then COMPLEXITY_COMPLEX
      else if any_in medium_keywords query_lower then COMPLEXITY_MEDIUM
      else if str_count query (CHR ''?'') > 1 \<or> str_count query (CHR '','') > 2
        then COMPLEXITY_COMPLEX
      else COMPLEXITY_SIMPLE)"

text \<open>
  The classification rule as the specification words it: an ordered table of
  (condition, level) pairs, the first condition that holds decides, and \<open>simple\<close> is
  the level when none holds. Keyword presence is tested on the lower-cased query.
\<close>

fun first_match :: "(('a \<Rightarrow> bool) \<times> 'b) list \<Rightarrow> 'b \<Rightarrow> 'a \<Rightarrow> 'b" where
  "first_match [] d q = d"
| "first_match ((c, v) # rules) d q = (if c q then v else first_match rules d q)"

definition contains_keyword :: "string list \<Rightarrow> string \<Rightarrow> bool" where
  "contains_keyword kws query = (\<exists>kw \<in> set kws. sublist kw (str_lower query))"

definition classify_rules :: "((string \<Rightarrow> bool) \<times> complexity) list" where
  "classify_rules =
     [(contains_keyword [''earlier'', ''previous'', ''before'', ''discussed'', ''we talked'',
                         ''mentioned'', ''said''], COMPLEXITY_SIMPLE),
      (contains_keyword [''compare'', ''analyze'', ''evaluate'', ''research and'', ''find and'',
                         ''identify and'', ''synthesize'', ''trade-off'', ''trade-offs'',
                         ''advantages and disadvantages'', ''pros and cons''], COMPLEXITY_COMPLEX),
      (contains_keyword [''explain'', ''describe'', ''how'', ''why'', ''relationship'',
                         ''difference'', ''similarity'', ''methodology''], COMPLEXITY_MEDIUM),
      (\<lambda>query. 1 < length (filter (\<lambda>c. c = CHR ''?'') query)
                \<or> 2 < length (filter (\<lambda>c. c = CHR '','') query), COMPLEXITY_COMPLEX)]"

definition classify_spec :: "string \<Rightarrow> complexity" where
  "classify_spec query = first_match classify_rules COMPLEXITY_SIMPLE query"

subsection \<open>Records exchanged with the memory agent\<close>

text \<open>
  A memory record is the dictionary built by \<^verbatim>\<open>MemoryAgent._store_memory\<close>; the keys
  \<^verbatim>\<open>similarity_score\<close> and \<^verbatim>\<open>match_score\<close> exist only on the copies that a search
  returns, so they are optional. A metadata value is a string or a number. Python floats
  are modelled as reals throughout.
\<close>

datatype mval = MStr string | MNum real

type_synonym metadata_dict = "(string \<times> mval) list"

record memory_record =
  mem_id :: string
  mem_type :: string
  content :: string
  metadata :: metadata_dict
  timestamp :: string
  similarity_score :: "real option"
  match_score :: "real option"

text \<open>The dictionary returned by \<^verbatim>\<open>MemoryAgent._search_memory\<close>.\<close>

record search_result =
  sr_query :: string
  results :: "memory_record list"
  count :: nat

subsection \<open>The execution plan\<close>

record plan_step =
  step :: nat
  agent :: string
  action :: string
  reason :: string
  topic :: "string option"
  analysis_type :: "string option"
  depends_on :: "nat list option"

text \<open>The keyword list of \<^verbatim>\<open>Coordinator._create_execution_plan\<close>.\<close>

definition plan_memory_keywords :: "string list" where
  "plan_memory_keywords = [''earlier'', ''previous'', ''before'', ''discussed'', ''we talked'']"

definition topic_keywords :: "(string \<times> string list) list" where
  "topic_keywords =
     [(''neural networks'', [''neural network'', ''neural net'']),
      (''transformers'', [''transformer'', ''transformer architecture'']),
      (''reinforcement learning'', [''reinforcement learning'', ''rl'', ''reinforcement'']),
      (''machine learning'', [''machine learning'', ''ml'']),
      (''deep learning'', [''deep learning'']),
      (''cnn'', [''cnn'', ''convolutional'']),
      (''rnn'', [''rnn'', ''recurrent''])]"

definition stop_words :: "string list" where
  "stop_words = [''what'', ''are'', ''the'', ''is'', ''a'', ''an'', ''how'', ''why'', ''about'']"

definition extract_research_topics :: "string \<Rightarrow> string list" where
  "extract_research_topics query =
     (let query_lower = str_lower query;
          topics = map fst (filter (\<lambda>(t, keywords). any_in keywords query_lower) topic_keywords);
          topics' =
            (if topics = [] then
               (let words = str_split query_lower;
                    meaningful_words = filter (\<lambda>w. w \<notin> set stop_words \<and> length w > 3) words
                in if meaningful_words \<noteq> [] then [str_join '' '' (take 3 meaningful_words)] else [])
             else topics)
      in take 2 topics')"

definition determine_analysis_type :: "string \<Rightarrow> string" where
  "determine_analysis_type query =
     (let query_lower = str_lower query in
      if str_in ''compare'' query_lower \<or> str_in ''comparison'' query_lower then ''comparison''
      else if str_in ''trade-off'' query_lower \<or> str_in ''tradeoffs'' query_lower then ''trade_offs''
      else if str_in ''methodology'' query_lower \<or> str_in ''methods'' query_lower then ''methodology''
      else if str_in ''challenge'' query_lower \<or> str_in ''challenges'' query_lower then ''challenges''
      else if str_in ''analyze'' query_lower \<or> str_in ''analysis'' query_lower then ''synthesis''
      else ''general'')"

definition memory_step :: plan_step where
  "memory_step =
     \<lparr>step = 1, agent = ''MemoryAgent'', action = ''retrieve_conversation'',
      reason = ''Query asks about previous conversation'',
      topic = None, analysis_type = None, depends_on = None\<rparr>"

definition research_step :: "nat \<Rightarrow> string \<Rightarrow> plan_step" where
  "research_step step_num t =
     \<lparr>step = step_num, agent = ''ResearchAgent'', action = ''research'',
      reason = ''Retrieve information about '' @ t,
      topic = Some t, analysis_type = None, depends_on = None\<rparr>"

definition analysis_step :: "nat \<Rightarrow> string \<Rightarrow> plan_step" where
  "analysis_step step_num ty =
     \<lparr>step = step_num, agent = ''AnalysisAgent'', action = ''analyze'',
      reason = ''Perform '' @ ty @ '' analysis on research results'',
      topic = None, analysis_type = Some ty, depends_on = Some [1..<step_num]\<rparr>"

text \<open>The loop over \<^verbatim>\<open>research_topics\<close>, numbering the steps from \<open>step_num\<close>.\<close>

fun research_steps :: "nat \<Rightarrow> string list \<Rightarrow> plan_step list" where
  "research_steps step_num [] = []"
| "research_steps step_num (t # ts) = research_step step_num t # research_steps (Suc step_num) ts"

text \<open>
  Python's float arithmetic rounds, so the sum and the quotient the planner computes are in
  general not the exact ones. A float is modelled by the real number it denotes; the
  built-in \<^verbatim>\<open>sum\<close> of a sequence of floats (a rounded sum, whose algorithm depends on the
  interpreter), the rounded division, and the number the literal \<^verbatim>\<open>0.8\<close> denotes are
  parameters. A comparison of two floats is exact.
\<close>

record float_arith =
  fl_sum :: "real list \<Rightarrow> real"
  fl_div :: "real \<Rightarrow> real \<Rightarrow> real"
  fl_literal_0_8 :: real

text \<open>
  \<^verbatim>\<open>sum(m.get("similarity_score", 0) for m in results) / max(count, 1)\<close>
\<close>

definition memory_confidence :: "float_arith \<Rightarrow> search_result \<Rightarrow> real" where
  "memory_confidence fl memory_results =
     fl_div fl
       (fl_sum fl
          (map (\<lambda>m. case similarity_score m of Some s \<Rightarrow> s | None \<Rightarrow> 0) (results memory_results)))
       (real (max (count memory_results) 1))"

definition needs_research :: "float_arith \<Rightarrow> complexity \<Rightarrow> search_result \<Rightarrow> bool" where
  "needs_research fl cx memory_results =
     (\<not> (count memory_results > 0
           \<and> memory_confidence fl memory_results > fl_literal_0_8 fl
           \<and> cx = COMPLEXITY_SIMPLE))"

definition create_execution_plan ::
  "float_arith \<Rightarrow> string \<Rightarrow> complexity \<Rightarrow> search_result \<Rightarrow> plan_step list" where
  "create_execution_plan fl query cx memory_results =
     (let query_lower = str_lower query in
      if any_in plan_memory_keywords query_lower then [memory_step]
      else
        (let research_topics = extract_research_topics query;
             research =
               (if needs_research fl cx memory_results \<and> research_topics \<noteq> []
                then research_steps 1 research_topics else []);
             step_num = 1 + length research
         in if cx \<in> set [COMPLEXITY_MEDIUM, COMPLEXITY_COMPLEX]
            then research @ [analysis_step step_num (determine_analysis_type query)]
            else research))"

section \<open>The vector store\<close>

text \<open>
  \<^verbatim>\<open>memory/vector_store.py\<close>. Python's built-in \<^verbatim>\<open>hash\<close> of a string is seeded per
  process, so it is a parameter \<open>hash\<close> of every function that embeds text.
\<close>

record vector_store =
  dimension :: nat
  index :: "real list list"
  id_to_vector :: "(string \<times> real list) list"
  vector_to_id :: "string list"

definition VectorStore :: "nat \<Rightarrow> vector_store" where
  "VectorStore d = \<lparr>dimension = d, index = [], id_to_vector = [], vector_to_id = []\<rparr>"

definition VECTOR_DIMENSION :: nat where
  "VECTOR_DIMENSION = 384"

text \<open>
  One iteration of the loop over the words: strip punctuation, hash, increment. With
  dimension 0 the Python raises \<^verbatim>\<open>ZeroDivisionError\<close> at \<^verbatim>\<open>hash(word) % self.dimension\<close>;
  the model has no such branch, so the statements about a store of arbitrary state assume
  a positive dimension (the memory agent always uses 384).
\<close>

definition add_word :: "(string \<Rightarrow> int) \<Rightarrow> nat \<Rightarrow> real list \<Rightarrow> string \<Rightarrow> real list" where
  "add_word hash d vector word0 =
     (let word = filter is_alnum word0 in
      if word \<noteq> [] then
        (let position = nat (hash word mod int d) in vector[position := vector ! position + 1])
      else vector)"

definition norm2 :: "real list \<Rightarrow> real" where
  "norm2 v = sqrt (sum_list (map (\<lambda>x. x * x) v))"

definition text_to_vector :: "(string \<Rightarrow> int) \<Rightarrow> nat \<Rightarrow> string \<Rightarrow> real list" where
  "text_to_vector hash d text =
     (let words = str_split (str_lower text);
          vector = foldl (add_word hash d) (replicate d 0) words;
          magnitude = norm2 vector
      in if magnitude > 0 then map (\<lambda>x. x / magnitude) vector else vector)"

text \<open>\<open>dict_set d k v\<close> is the assignment \<^verbatim>\<open>d[k] = v\<close> on an insertion-ordered dictionary.\<close>

fun dict_set :: "('k \<times> 'v) list \<Rightarrow> 'k \<Rightarrow> 'v \<Rightarrow> ('k \<times> 'v) list" where
  "dict_set [] k v = [(k, v)]"
| "dict_set ((k', v') # d) k v = (if k' = k then (k', v) # d else (k', v') # dict_set d k v)"

definition vs_add :: "(string \<Rightarrow> int) \<Rightarrow> string \<Rightarrow> string \<Rightarrow> vector_store \<Rightarrow> vector_store" where
  "vs_add hash memory_id text vs =
     (let vector = text_to_vector hash (dimension vs) text in
      vs\<lparr>id_to_vector := dict_set (id_to_vector vs) memory_id vector,
         vector_to_id := vector_to_id vs @ [memory_id],
         index := index vs @ [vector]\<rparr>)"

definition ntotal :: "vector_store \<Rightarrow> nat" where
  "ntotal vs = length (index vs)"

text \<open>The exceptions of the Python that the model carries as values.\<close>

datatype py_error = AssertionError

text \<open>
  \<^verbatim>\<open>faiss.IndexFlatL2\<close> is an external library, not code of this repository. Its flat L2
  index is modelled by its documented contract: an exhaustive search that reports, for
  the \<open>k\<close> nearest stored vectors in order of increasing distance, the squared Euclidean
  distance to the query and the position of the vector in the index (vectors at equal
  distance in index order). The search asserts \<open>k > 0\<close>: with \<open>k = 0\<close> it raises
  \<^verbatim>\<open>AssertionError\<close>.
\<close>

definition l2sqr :: "real list \<Rightarrow> real list \<Rightarrow> real" where
  "l2sqr x y = sum_list (map (\<lambda>(a, b). (a - b) * (a - b)) (zip x y))"

definition nearest :: "real list list \<Rightarrow> real list \<Rightarrow> nat \<Rightarrow> (real \<times> nat) list" where
  "nearest vectors q k =
     take k (sort_key fst (map (\<lambda>i. (l2sqr q (vectors ! i), i)) [0..<length vectors]))"

definition index_search ::
  "real list list \<Rightarrow> real list \<Rightarrow> nat \<Rightarrow> py_error + (real \<times> nat) list" where
  "index_search vectors q k = (if k = 0 then Inl AssertionError else Inr (nearest vectors q k))"

text \<open>
  \<^verbatim>\<open>VectorStore.search\<close>: an empty index answers with the empty list; otherwise the
  exception of the index search, if any, leaves the function.
\<close>

definition vs_search ::
  "(string \<Rightarrow> int) \<Rightarrow> vector_store \<Rightarrow> string \<Rightarrow> nat \<Rightarrow> py_error + (string \<times> real) list" where
  "vs_search hash vs query_text top_k =
     (if ntotal vs = 0 then Inr []
      else
        (let query_vector = text_to_vector hash (dimension vs) query_text;
             top_k' = min top_k (ntotal vs)
         in case index_search (index vs) query_vector top_k' of
              Inl err \<Rightarrow> Inl err
            | Inr hits \<Rightarrow>
                Inr (map (\<lambda>(dist, idx). (vector_to_id vs ! idx, 1 / (1 + dist)))
                       (filter (\<lambda>(dist, idx). idx < length (vector_to_id vs)) hits))))"

definition vs_size :: "vector_store \<Rightarrow> nat" where
  "vs_size vs = ntotal vs"

text \<open>The Euclidean distance of the specification, for comparison.\<close>

definition euclidean_distance :: "real list \<Rightarrow> real list \<Rightarrow> real" where
  "euclidean_distance x y = sqrt (l2sqr x y)"

section \<open>The memory agent\<close>

record memory_agent =
  vector_store :: vector_store
  conversation_memory :: "memory_record list"
  knowledge_base :: "(string \<times> memory_record list) list"
  agent_state_memory :: "(string \<times> memory_record list) list"
  memory_id_counter :: nat

text \<open>\<^verbatim>\<open>MemoryAgent.__init__\<close> builds its vector store with the default dimension.\<close>

definition MemoryAgent :: memory_agent where
  "MemoryAgent =
     \<lparr>vector_store = VectorStore VECTOR_DIMENSION, conversation_memory = [], knowledge_base = [],
      agent_state_memory = [], memory_id_counter = 0\<rparr>"

text \<open>The payload of a message to the memory agent; an absent key is \<open>None\<close>.\<close>

record payload =
  operation :: "string option"
  memory_type :: "string option"
  p_content :: "string option"
  p_metadata :: "metadata_dict option"
  p_query :: "string option"
  search_type :: "string option"
  limit :: "nat option"

definition empty_payload :: payload where
  "empty_payload =
     \<lparr>operation = None, memory_type = None, p_content = None, p_metadata = None,
      p_query = None, search_type = None, limit = None\<rparr>"

text \<open>
  \<^verbatim>\<open>metadata.get(key, default)\<close> for the entries the agent reads, \<^verbatim>\<open>topic\<close> and
  \<^verbatim>\<open>agent\<close>, which hold strings in every caller (for a number the model returns the
  default).
\<close>

definition meta_get :: "metadata_dict \<Rightarrow> string \<Rightarrow> string \<Rightarrow> string" where
  "meta_get md key dflt = (case map_of md key of Some (MStr v) \<Rightarrow> v | _ \<Rightarrow> dflt)"

text \<open>
  \<^verbatim>\<open>if k not in d: d[k] = []\<close> followed by \<^verbatim>\<open>d[k].append(x)\<close>: a new key goes last.
\<close>

fun dict_append :: "(string \<times> 'a list) list \<Rightarrow> string \<Rightarrow> 'a \<Rightarrow> (string \<times> 'a list) list" where
  "dict_append [] k x = [(k, [x])]"
| "dict_append ((k', xs) # d) k x =
     (if k' = k then (k', xs @ [x]) # d else (k', xs) # dict_append d k x)"

text \<open>\<^verbatim>\<open>for vs in d.values(): out.extend(vs)\<close>\<close>

definition dict_values_concat :: "(string \<times> 'a list) list \<Rightarrow> 'a list" where
  "dict_values_concat d = concat (map snd d)"

record store_result =
  memory_id :: string
  st_status :: string
  st_memory_type :: string

text \<open>
  \<^verbatim>\<open>MemoryAgent._store_memory\<close>; \<open>now\<close> is the reading of \<^verbatim>\<open>datetime.now()\<close>, formatted
  as \<^verbatim>\<open>%Y-%m-%d %H:%M:%S\<close>.
\<close>

definition store_memory ::
  "(string \<Rightarrow> int) \<Rightarrow> string \<Rightarrow> payload \<Rightarrow> memory_agent \<Rightarrow> store_result \<times> memory_agent" where
  "store_memory hash now pl ag =
     (let mtype = (case memory_type pl of Some t \<Rightarrow> t | None \<Rightarrow> ''conversation'');
          cont = (case p_content pl of Some c \<Rightarrow> c | None \<Rightarrow> []);
          md = (case p_metadata pl of Some m \<Rightarrow> m | None \<Rightarrow> []);
          mid = ''mem_'' @ str_of_nat (memory_id_counter ag);
          memory_record =
            \<lparr>mem_id = mid, mem_type = mtype, content = cont, metadata = md, timestamp = now,
             similarity_score = None, match_score = None\<rparr>;
          ag1 = ag\<lparr>memory_id_counter := memory_id_counter ag + 1\<rparr>;
          ag2 =
            (if mtype = ''conversation'' then
               ag1\<lparr>conversation_memory := conversation_memory ag1 @ [memory_record]\<rparr>
             else if mtype = ''knowledge'' then
               ag1\<lparr>knowledge_base :=
                     dict_append (knowledge_base ag1) (meta_get md ''topic'' ''general'') memory_record\<rparr>
             else if mtype = ''agent_state'' then
               ag1\<lparr>agent_state_memory :=
                     dict_append (agent_state_memory ag1) (meta_get md ''agent'' ''unknown'') memory_record\<rparr>
             else ag1);
          search_text = meta_get md ''topic'' [] @ '' '' @ cont;
          ag3 = ag2\<lparr>vector_store := vs_add hash mid search_text (vector_store ag2)\<rparr>
      in (\<lparr>memory_id = mid, st_status = ''stored'', st_memory_type = mtype\<rparr>, ag3))"

text \<open>\<^verbatim>\<open>xs[-n:]\<close> for \<open>n \<ge> 0\<close>: all of \<open>xs\<close> when \<open>n = 0\<close>, else its last \<open>n\<close> elements.\<close>

definition last_n :: "nat \<Rightarrow> 'a list \<Rightarrow> 'a list" where
  "last_n n xs = (if n = 0 then xs else drop (length xs - n) xs)"

text \<open>
  \<^verbatim>\<open>xs.sort(key=f, reverse=True)\<close>: descending, and stable (elements with equal keys
  keep their order).
\<close>

definition sort_reverse :: "('a \<Rightarrow> 'k::linorder) \<Rightarrow> 'a list \<Rightarrow> 'a list" where
  "sort_reverse f xs = rev (sort_key f (rev xs))"

record retrieve_result =
  memories :: "memory_record list"
  rt_count :: nat

text \<open>The list \<^verbatim>\<open>results\<close> of \<^verbatim>\<open>_retrieve_memory\<close> before it is sorted.\<close>

definition retrieve_candidates :: "memory_agent \<Rightarrow> string \<Rightarrow> nat \<Rightarrow> memory_record list" where
  "retrieve_candidates ag mtype lmt =
     (if mtype = ''conversation'' \<or> mtype = ''all'' then last_n lmt (conversation_memory ag) else [])
     @ (if mtype = ''knowledge'' \<or> mtype = ''all'' then dict_values_concat (knowledge_base ag) else [])
     @ (if mtype = ''agent_state'' \<or> mtype = ''all''
        then dict_values_concat (agent_state_memory ag) else [])"

definition retrieve_memory :: "payload \<Rightarrow> memory_agent \<Rightarrow> retrieve_result" where
  "retrieve_memory pl ag =
     (let mtype = (case memory_type pl of Some t \<Rightarrow> t | None \<Rightarrow> ''all'');
          lmt = (case limit pl of Some l \<Rightarrow> l | None \<Rightarrow> 10);
          res = take lmt (sort_reverse timestamp (retrieve_candidates ag mtype lmt))
      in \<lparr>memories = res, rt_count = length res\<rparr>)"

text \<open>The records of all three stores, in the order every lookup scans them.\<close>

definition all_memories :: "memory_agent \<Rightarrow> memory_record list" where
  "all_memories ag =
     conversation_memory ag @ dict_values_concat (knowledge_base ag)
       @ dict_values_concat (agent_state_memory ag)"

definition find_memory_by_id :: "memory_agent \<Rightarrow> string \<Rightarrow> memory_record option" where
  "find_memory_by_id ag i = find (\<lambda>m. mem_id m = i) (all_memories ag)"

text \<open>The match score of one record, \<open>0\<close> when the record does not match.\<close>

definition keyword_match_score :: "string \<Rightarrow> memory_record \<Rightarrow> real" where
  "keyword_match_score query_lower memory =
     (let query_words = remdups (str_split query_lower);
          cont = str_lower (content memory);
          tpc = str_lower (meta_get (metadata memory) ''topic'' []);
          content_words = str_split cont;
          topic_words = str_split tpc
      in if str_in query_lower cont \<or> str_in query_lower tpc then 1
         else
           (let overlap = filter (\<lambda>w. w \<in> set content_words \<or> w \<in> set topic_words) query_words
            in if overlap \<noteq> [] then real (length overlap) / real (length query_words) else 0))"

definition score_of_match :: "memory_record \<Rightarrow> real" where
  "score_of_match m = (case match_score m of Some s \<Rightarrow> s | None \<Rightarrow> 0)"

definition keyword_search :: "memory_agent \<Rightarrow> string \<Rightarrow> nat \<Rightarrow> memory_record list" where
  "keyword_search ag query lmt =
     (let query_lower = str_lower query;
          hits = map (\<lambda>m. m\<lparr>match_score := Some (keyword_match_score query_lower m)\<rparr>)
                   (filter (\<lambda>m. keyword_match_score query_lower m > 0) (all_memories ag))
      in take lmt (sort_reverse score_of_match hits))"

definition score_of :: "memory_record \<Rightarrow> real" where
  "score_of m = (case similarity_score m of Some s \<Rightarrow> s | None \<Rightarrow> 0)"

text \<open>The vector path: the hits of the vector store, resolved to copies of the records.\<close>

definition vector_results :: "memory_agent \<Rightarrow> (string \<times> real) list \<Rightarrow> memory_record list" where
  "vector_results ag similar_ids =
     List.map_filter
       (\<lambda>(i, similarity).
          map_option (\<lambda>m. m\<lparr>similarity_score := Some similarity\<rparr>) (find_memory_by_id ag i))
       similar_ids"

text \<open>The keyword path: the keyword hits whose id the vector path did not return.\<close>

definition merge_keyword :: "memory_record list \<Rightarrow> memory_record list \<Rightarrow> memory_record list" where
  "merge_keyword res keyword_results =
     res @ map (\<lambda>kr. kr\<lparr>similarity_score := Some 0.7\<rparr>)
             (filter (\<lambda>kr. mem_id kr \<notin> set (map mem_id res)) keyword_results)"

definition search_memory ::
  "(string \<Rightarrow> int) \<Rightarrow> payload \<Rightarrow> memory_agent \<Rightarrow> py_error + search_result" where
  "search_memory hash pl ag =
     (let query = (case p_query pl of Some q \<Rightarrow> q | None \<Rightarrow> []);
          stype = (case search_type pl of Some t \<Rightarrow> t | None \<Rightarrow> ''hybrid'');
          lmt = (case limit pl of Some l \<Rightarrow> l | None \<Rightarrow> 5);
          vector_path =
            (if stype \<in> set [''vector'', ''hybrid'']
             then (case vs_search hash (vector_store ag) query lmt of
                     Inl err \<Rightarrow> Inl err
                   | Inr similar_ids \<Rightarrow> Inr (vector_results ag similar_ids))
             else Inr [])
      in case vector_path of
           Inl err \<Rightarrow> Inl err
         | Inr res1 \<Rightarrow>
             (let res2 =
                    (if stype \<in> set [''keyword'', ''hybrid'']
                     then merge_keyword res1 (keyword_search ag query lmt) else res1);
                  res = take lmt (sort_reverse score_of res2)
              in Inr \<lparr>sr_query = query, results = res, count = length res\<rparr>))"

text \<open>
  \<^verbatim>\<open>MemoryAgent.process_message\<close>: the dispatch on the payload's \<^verbatim>\<open>operation\<close>. The
  response payload carries the operation, the result dictionary and a status; an unknown
  operation is the only one answered with status \<^verbatim>\<open>error\<close>. An exception of the search
  is not caught here.
\<close>

datatype memory_result =
    StoreResult store_result
  | RetrieveResult retrieve_result
  | SearchResult search_result
  | ErrorResult string

record memory_response =
  mr_operation :: string
  mr_result :: memory_result
  mr_status :: string

definition process_message ::
  "(string \<Rightarrow> int) \<Rightarrow> string \<Rightarrow> payload \<Rightarrow> memory_agent
     \<Rightarrow> py_error + (memory_response \<times> memory_agent)" where
  "process_message hash now pl ag =
     (let opn = (case operation pl of Some p \<Rightarrow> p | None \<Rightarrow> ''retrieve'') in
      if opn = ''store'' then
        (let (r, ag') = store_memory hash now pl ag
         in Inr (\<lparr>mr_operation = opn, mr_result = StoreResult r, mr_status = ''stored''\<rparr>, ag'))
      else if opn = ''retrieve'' then
        Inr (\<lparr>mr_operation = opn, mr_result = RetrieveResult (retrieve_memory pl ag),
              mr_status = ''retrieved''\<rparr>, ag)
      else if opn = ''search'' then
        (case search_memory hash pl ag of
           Inl err \<Rightarrow> Inl err
         | Inr r \<Rightarrow>
             Inr (\<lparr>mr_operation = opn, mr_result = SearchResult r, mr_status = ''searched''\<rparr>, ag))
      else
        Inr (\<lparr>mr_operation = opn, mr_result = ErrorResult (''Unknown operation: '' @ opn),
              mr_status = ''error''\<rparr>, ag))"



text \<open>
  The states of the memory agent: a fresh agent, and every state a store leads to (only
  \<^verbatim>\<open>_store_memory\<close> writes the agent's fields).
\<close>

inductive reachable :: "(string \<Rightarrow> int) \<Rightarrow> memory_agent \<Rightarrow> bool" for hash :: "string \<Rightarrow> int" where
  reachable_init: "reachable hash MemoryAgent"
| reachable_store: "reachable hash ag \<Longrightarrow> reachable hash (snd (store_memory hash now pl ag))"

text \<open>The number of records held in the three category logs.\<close>

definition total_records :: "memory_agent \<Rightarrow> nat" where
  "total_records ag =
     length (conversation_memory ag) + length (dict_values_concat (knowledge_base ag))
       + length (dict_values_concat (agent_state_memory ag))"

definition valid_categories :: "string list" where
  "valid_categories = [''conversation'', ''knowledge'', ''agent_state'']"

text \<open>
  Retrieval as the specification words it, over the records in the order they were
  stored: the records of the category (of any of the three for \<^verbatim>\<open>all\<close>), sorted
  descending by timestamp with ties in insertion order, truncated to the limit.
\<close>

definition retrieve_spec :: "memory_record list \<Rightarrow> string \<Rightarrow> nat \<Rightarrow> memory_record list" where
  "retrieve_spec history category_filter lmt =
     take lmt (sort_reverse timestamp
       (filter (\<lambda>m. if category_filter = ''all'' then mem_type m \<in> set valid_categories
                     else mem_type m = category_filter) history))"

section \<open>The research agent\<close>

text \<open>
  \<^verbatim>\<open>agents/research_agent.py\<close>. The table \<^verbatim>\<open>KNOWLEDGE_DB\<close> of
  \<^verbatim>\<open>memory/knowledge_base.py\<close> is a parameter \<open>db\<close>: an insertion-ordered dictionary
  from topic to entry.
\<close>

record knowledge_entry =
  k_summary :: string
  k_details :: "string option"
  k_source :: string
  k_confidence :: real

record research_record =
  r_topic :: string
  r_summary :: string
  r_details :: string
  r_source :: string
  r_confidence :: real


definition knowledge_record :: "string \<times> knowledge_entry \<Rightarrow> research_record" where
  "knowledge_record tk =
     (case tk of (tpc, knowledge) \<Rightarrow>
        \<lparr>r_topic = tpc, r_summary = k_summary knowledge,
         r_details = (case k_details knowledge of Some d \<Rightarrow> d | None \<Rightarrow> k_summary knowledge),
         r_source = k_source knowledge, r_confidence = k_confidence knowledge\<rparr>)"

definition research :: "(string \<times> knowledge_entry) list \<Rightarrow> string \<Rightarrow> research_record list" where
  "research db query =
     (let query_lower = str_lower query;
          words = str_split query_lower;
          matched_topics =
            filter (\<lambda>(tpc, knowledge). str_in tpc query_lower \<or> list_ex (\<lambda>word. str_in word tpc) words) db;
          matched_topics' =
            (if matched_topics = [] then
               filter (\<lambda>(tpc, knowledge). list_ex (\<lambda>w. w \<in> set (str_split tpc)) words) db
             else matched_topics);
          res = map knowledge_record matched_topics'
      in if res = [] then
           (case map_of db ''machine learning'' of
              Some knowledge \<Rightarrow>
                [\<lparr>r_topic = ''machine learning (general)'',
                  r_summary = ''General machine learning information as fallback.'',
                  r_details = k_summary knowledge, r_source = k_source knowledge,
                  r_confidence = 0.6\<rparr>]
            | None \<Rightarrow> [])
         else res)"


section \<open>The analysis agent\<close>

text \<open>
  \<^verbatim>\<open>agents/analysis_agent.py\<close>. An analysis result is a dictionary whose keys depend on the
  analysis; an absent key is \<open>None\<close>.
\<close>

record comparison_item =
  approach :: string
  description :: string
  c_analysis :: string

record tradeoff_item =
  t_approach :: string
  advantages :: "string list"
  disadvantages :: "string list"

record area_item =
  area :: string
  challenges :: "string list"

record analysis =
  a_type :: "string option"
  a_comparison :: "string option"
  a_items_compared :: "nat option"
  a_comparisons :: "comparison_item list option"
  a_recommendation :: "string option"
  a_tradeoffs :: "tradeoff_item list option"
  a_challenges_by_area :: "area_item list option"
  a_common_challenges :: "string list option"
  a_summary :: "string option"
  a_confidence :: "real option"

definition empty_analysis :: analysis where
  "empty_analysis =
     \<lparr>a_type = None, a_comparison = None, a_items_compared = None, a_comparisons = None,
      a_recommendation = None, a_tradeoffs = None, a_challenges_by_area = None,
      a_common_challenges = None, a_summary = None, a_confidence = None\<rparr>"

text \<open>\<^verbatim>\<open>max(data, key=...)\<close> on a non-empty list: the first element of greatest key.\<close>

definition max_by :: "('a \<Rightarrow> real) \<Rightarrow> 'a \<Rightarrow> 'a list \<Rightarrow> 'a" where
  "max_by f x xs = foldl (\<lambda>best y. if f y > f best then y else best) x xs"

definition generate_recommendation :: "research_record list \<Rightarrow> string \<Rightarrow> string" where
  "generate_recommendation data task =
     (case data of
        [] \<Rightarrow> ''Insufficient data for recommendation''
      | x # xs \<Rightarrow>
          ''Based on the analysis, '' @ r_topic (max_by r_confidence x xs)
            @ '' appears most suitable due to its strong foundation and proven effectiveness in the domain.'')"

definition compare_data :: "research_record list \<Rightarrow> string \<Rightarrow> analysis" where
  "compare_data data task =
     (if length data < 2 then
        empty_analysis\<lparr>a_comparison := Some ''Insufficient data for comparison'',
                       a_confidence := Some 0.3\<rparr>
      else
        empty_analysis\<lparr>a_type := Some ''comparison'',
          a_items_compared := Some (length data),
          a_comparisons := Some (map (\<lambda>item. \<lparr>approach = r_topic item, description = r_summary item,
                                                c_analysis = r_details item\<rparr>) data),
          a_recommendation := Some (generate_recommendation data task),
          a_confidence := Some 0.85\<rparr>)"

text \<open>
  \<^verbatim>\<open>AnalysisAgent._analyze\<close>: the dispatch on the analysis type. The five analyses other
  than the comparison are a parameter \<open>other\<close>, which returns \<open>None\<close> where the analysis
  raises.
\<close>

definition analyze ::
  "(string \<Rightarrow> research_record list \<Rightarrow> string \<Rightarrow> analysis option)
     \<Rightarrow> research_record list \<Rightarrow> string \<Rightarrow> string \<Rightarrow> analysis option" where
  "analyze other data atype task =
     (if atype = ''comparison'' then Some (compare_data data task) else other atype data task)"


section \<open>Coordinator: execution, synthesis and the query pipeline\<close>




definition no_memories :: search_result where
  "no_memories = \<lparr>sr_query = [], results = [], count = 0\<rparr>"























section \<open>Views of the model used in the statements\<close>

text \<open>The values \<^verbatim>\<open>_store_memory\<close> reads from its payload, the id it assigns and the record
  it builds.\<close>

definition store_type :: "payload \<Rightarrow> string" where
  "store_type pl = (case memory_type pl of Some t \<Rightarrow> t | None \<Rightarrow> ''conversation'')"

definition store_content :: "payload \<Rightarrow> string" where
  "store_content pl = (case p_content pl of Some c \<Rightarrow> c | None \<Rightarrow> [])"

definition store_metadata :: "payload \<Rightarrow> metadata_dict" where
  "store_metadata pl = (case p_metadata pl of Some m \<Rightarrow> m | None \<Rightarrow> [])"

definition next_id :: "memory_agent \<Rightarrow> string" where
  "next_id ag = ''mem_'' @ str_of_nat (memory_id_counter ag)"

definition new_record :: "string \<Rightarrow> payload \<Rightarrow> memory_agent \<Rightarrow> memory_record" where
  "new_record now pl ag =
     \<lparr>mem_id = next_id ag, mem_type = store_type pl, content = store_content pl,
      metadata = store_metadata pl, timestamp = now, similarity_score = None, match_score = None\<rparr>"

definition search_text :: "payload \<Rightarrow> string" where
  "search_text pl = meta_get (store_metadata pl) ''topic'' [] @ '' '' @ store_content pl"

text \<open>The invariant of the reachable states of the memory agent.\<close>

definition agent_inv :: "memory_agent \<Rightarrow> bool" where
  "agent_inv ag \<longleftrightarrow>
     vector_to_id (vector_store ag) = map (\<lambda>k. ''mem_'' @ str_of_nat k) [0..<memory_id_counter ag]
   \<and> length (index (vector_store ag)) = memory_id_counter ag
   \<and> list_all (\<lambda>m. \<exists>k < memory_id_counter ag. mem_id m = ''mem_'' @ str_of_nat k) (all_memories ag)
   \<and> distinct (map mem_id (all_memories ag))
   \<and> list_all (\<lambda>m. similarity_score m = None \<and> match_score m = None) (all_memories ag)
   \<and> total_records ag \<le> memory_id_counter ag
   \<and> dimension (vector_store ag) = VECTOR_DIMENSION"





definition is_research_step :: "plan_step \<Rightarrow> bool" where
  "is_research_step st = (agent st = ''ResearchAgent'')"

text \<open>The exact arithmetic mean of the similarity scores of the returned records.\<close>

definition mean_similarity :: "memory_record list \<Rightarrow> real" where
  "mean_similarity ms = sum_list (map score_of ms) / real (length ms)"

section \<open>Example inputs\<close>

text \<open>A stand-in for Python's string hash: the sum of the character codes.\<close>

definition demo_hash :: "string \<Rightarrow> int" where
  "demo_hash w = sum_list (map of_char w)"

definition demo_store :: vector_store where
  "demo_store = vs_add demo_hash ''mem_0'' ''a'' (VectorStore 2)"

definition said_query :: string where
  "said_query = ''what was said about transformers''"

text \<open>A reading of the clock, three store requests and the agents they lead to.\<close>

definition demo_time :: string where
  "demo_time = ''2024-01-01 10:00:00''"

definition first_answer :: payload where
  "first_answer = empty_payload\<lparr>memory_type := Some ''conversation'', p_content := Some ''first answer''\<rparr>"

definition cnn_fact :: payload where
  "cnn_fact =
     empty_payload\<lparr>memory_type := Some ''knowledge'', p_content := Some ''cnn fact'',
       p_metadata := Some [(''topic'', MStr ''cnn'')]\<rparr>"

definition second_answer :: payload where
  "second_answer = empty_payload\<lparr>memory_type := Some ''conversation'', p_content := Some ''second answer''\<rparr>"

definition agent0 :: memory_agent where
  "agent0 = MemoryAgent"

definition agent1 :: memory_agent where
  "agent1 = snd (store_memory demo_hash demo_time first_answer agent0)"

definition agent2 :: memory_agent where
  "agent2 = snd (store_memory demo_hash demo_time cnn_fact agent1)"

definition agent3 :: memory_agent where
  "agent3 = snd (store_memory demo_hash demo_time second_answer agent2)"

text \<open>The three records in the order they were stored.\<close>

definition demo_history :: "memory_record list" where
  "demo_history =
     [new_record demo_time first_answer agent0, new_record demo_time cnn_fact agent1,
      new_record demo_time second_answer agent2]"

text \<open>A store request with a category that is none of the three.\<close>

definition bogus_payload :: payload where
  "bogus_payload =
     empty_payload\<lparr>operation := Some ''store'', memory_type := Some ''bogus'',
       p_content := Some ''note''\<rparr>"

text \<open>
  A float arithmetic for the examples. The only operations the examples perform are the
  sum of the single score 0.875 and its division by 1, which binary floating point
  computes without rounding, so the sum and the division are the exact ones here; the
  literal \<^verbatim>\<open>0.8\<close> denotes the double nearest to it.
\<close>

definition demo_floats :: float_arith where
  "demo_floats =
     \<lparr>fl_sum = sum_list, fl_div = (\<lambda>x y. x / y),
      fl_literal_0_8 = 3602879701896397 / 4503599627370496\<rparr>"


definition cnn_query :: string where
  "cnn_query = ''what is a cnn''"

definition confident_memory :: search_result where
  "confident_memory =
     \<lparr>sr_query = cnn_query,
      results = [(new_record demo_time cnn_fact agent1)\<lparr>similarity_score := Some 0.875\<rparr>],
      count = 1\<rparr>"

definition one_record :: "research_record list" where
  "one_record =
     [\<lparr>r_topic = ''cnn'', r_summary = ''summary'', r_details = ''details'',
       r_source = ''source'', r_confidence = 0.9\<rparr>]"

section \<open>Strings\<close>

text \<open>The substring test agrees with the contiguous-sublist relation of the library.\<close>

lemma startswith_prefix: "startswith s p = prefix p s"
  by (induction s p rule: startswith.induct) auto

lemma str_in_sublist: "str_in k s = sublist k s"
  by (induction s) (auto simp: startswith_prefix sublist_Cons_right)

lemma any_in_contains: "any_in kws (str_lower q) = contains_keyword kws q"
  by (simp add: any_in_def contains_keyword_def list_ex_iff str_in_sublist)

lemma contains_keyword_cong: "set kws = set kws' \<Longrightarrow> contains_keyword kws q = contains_keyword kws' q"
  by (simp add: contains_keyword_def)

lemma str_count_filter: "str_count s c = length (filter (\<lambda>x. x = c) s)"
  unfolding str_count_def by (induction s) auto

text \<open>The decimal rendering of a natural number is injective, so the ids
  \<^verbatim>\<open>mem_0\<close>, \<^verbatim>\<open>mem_1\<close>, ... are pairwise distinct.\<close>

lemma digit_char_inj: "a < 10 \<Longrightarrow> b < 10 \<Longrightarrow> digit_char a = digit_char b \<Longrightarrow> a = b"
  unfolding digit_char_def
  by (subst (asm) nth_eq_iff_index_eq) (simp_all add: digit_chars_def)

lemma str_of_nat_not_Nil: "str_of_nat n \<noteq> []"
  by (subst str_of_nat.simps) simp

lemma str_of_nat_inj: "str_of_nat a = str_of_nat b \<Longrightarrow> a = b"
proof (induction a arbitrary: b rule: str_of_nat.induct)
  case (1 n)
  show ?case
  proof (cases "n < 10")
    case small: True
    show ?thesis
    proof (cases "b < 10")
      case True
      with small 1(2) show ?thesis
        by (simp add: str_of_nat.simps[of n] str_of_nat.simps[of b] digit_char_inj)
    next
      case False
      with small 1(2) str_of_nat_not_Nil[of "b div 10"] show ?thesis
        by (simp add: str_of_nat.simps[of n] str_of_nat.simps[of b] Cons_eq_append_conv)
    qed
  next
    case big: False
    show ?thesis
    proof (cases "b < 10")
      case True
      with big 1(2) str_of_nat_not_Nil[of "n div 10"] show ?thesis
        by (simp add: str_of_nat.simps[of n] str_of_nat.simps[of b] append_eq_Cons_conv)
    next
      case False
      with big 1(2) have e: "str_of_nat (n div 10) = str_of_nat (b div 10)"
        and d: "digit_char (n mod 10) = digit_char (b mod 10)"
        by (simp_all add: str_of_nat.simps[of n] str_of_nat.simps[of b])
      from 1(1)[OF big e] have "n div 10 = b div 10" .
      moreover from d have "n mod 10 = b mod 10" by (simp add: digit_char_inj)
      ultimately show ?thesis by (metis div_mult_mod_eq)
    qed
  qed
qed

lemma mem_id_inj: "''mem_'' @ str_of_nat a = ''mem_'' @ str_of_nat b \<longleftrightarrow> a = b"
  by (auto dest: str_of_nat_inj)

section \<open>Classification\<close>

text \<open>
  Claim C6. For every query, the level \<^verbatim>\<open>_analyze_complexity\<close> returns is the level
  of the first rule that matches, in the order: a memory-reference keyword gives simple;
  else a complex-intent keyword gives complex; else a medium-intent keyword gives medium;
  else more than one question mark or more than two commas gives complex; otherwise
  simple. Keywords are looked for in the lower-cased query.
\<close>

theorem analyze_complexity_priority_order: "analyze_complexity query = classify_spec query"
proof -
  have cplx: "contains_keyword complex_keywords query =
      contains_keyword [''compare'', ''analyze'', ''evaluate'', ''research and'', ''find and'',
                         ''identify and'', ''synthesize'', ''trade-off'', ''trade-offs'',
                         ''advantages and disadvantages'', ''pros and cons''] query"
    by (rule contains_keyword_cong) (simp add: complex_keywords_def insert_commute)
  show ?thesis
    unfolding analyze_complexity_def classify_spec_def classify_rules_def Let_def
      any_in_contains str_count_filter cplx
    by (simp add: memory_keywords_def medium_keywords_def)
qed

section \<open>Planning\<close>

text \<open>A query with one of the planner's own five keywords gets the single memory step.\<close>

lemma plan_short_circuit:
  "any_in plan_memory_keywords (str_lower q) \<Longrightarrow> create_execution_plan fl q cx m = [memory_step]"
  by (simp add: create_execution_plan_def)

text \<open>
  Claim C1, at the query \<^verbatim>\<open>what was said about transformers\<close>. The query contains the
  memory-reference keyword \<^verbatim>\<open>said\<close> (the classifier's list), but the planner's list ends
  at \<^verbatim>\<open>we talked\<close>: with the complexity the classifier assigns and an empty memory
  result, the plan is one step that targets the research agent, not the memory agent.
\<close>

theorem said_query_plan:
  "any_in memory_keywords (str_lower said_query)
   \<and> create_execution_plan fl said_query (analyze_complexity said_query) no_memories
       = [research_step 1 ''transformers'']
   \<and> agent (research_step 1 ''transformers'') = ''ResearchAgent''"
proof -
  have "any_in memory_keywords (str_lower said_query)"
    and "\<not> any_in plan_memory_keywords (str_lower said_query)"
    and "extract_research_topics said_query = [''transformers'']"
    and "analyze_complexity said_query = COMPLEXITY_SIMPLE"
    and "agent (research_step 1 ''transformers'') = ''ResearchAgent''"
    by code_simp+
  then show ?thesis
    by (simp add: create_execution_plan_def needs_research_def no_memories_def)
qed

text \<open>The research steps of a plan outside the memory short-circuit.\<close>

lemma research_steps_agent: "list_all is_research_step (research_steps n ts)"
  by (induction ts arbitrary: n) (simp_all add: is_research_step_def research_step_def)

lemma filter_research_steps: "filter is_research_step (research_steps n ts) = research_steps n ts"
  using research_steps_agent[of n ts] by (simp add: list_all_iff filter_id_conv)

lemma research_steps_Nil: "research_steps n ts = [] \<longleftrightarrow> ts = []"
  by (cases ts) simp_all

lemma analysis_step_not_research: "\<not> is_research_step (analysis_step n ty)"
  by (simp add: is_research_step_def analysis_step_def)

lemma plan_research_part:
  assumes "\<not> any_in plan_memory_keywords (str_lower q)"
  shows "filter is_research_step (create_execution_plan fl q cx m) =
     (if needs_research fl cx m then research_steps 1 (extract_research_topics q) else [])"
  using assms unfolding create_execution_plan_def Let_def
  by (cases "extract_research_topics q = []")
     (simp_all add: filter_research_steps analysis_step_not_research)

text \<open>Were the arithmetic exact, the confidence would be the arithmetic mean of the scores.\<close>

lemma memory_confidence_exact:
  assumes "fl_sum fl = sum_list" and "fl_div fl = (\<lambda>x y. x / y)"
    and "count m = length (results m)" and "results m \<noteq> []"
  shows "memory_confidence fl m = mean_similarity (results m)"
proof -
  from assms(4) have "max (length (results m)) 1 = length (results m)"
    by (cases "results m") simp_all
  with assms(1-3) show ?thesis
    unfolding memory_confidence_def mean_similarity_def
    by (simp add: score_of_def[abs_def])
qed

text \<open>
  Claim C8, as stated, fails at the query \<^verbatim>\<open>hi\<close>: it has no memory-reference keyword, the
  memory result is empty, and still the plan has no research step, because no research
  topic can be extracted from the query.
\<close>

theorem hi_plan:
  "\<not> any_in memory_keywords (str_lower ''hi'')
   \<and> results no_memories = []
   \<and> create_execution_plan demo_floats ''hi'' COMPLEXITY_SIMPLE no_memories = []"
proof -
  have "\<not> any_in memory_keywords (str_lower ''hi'')"
    and "\<not> any_in plan_memory_keywords (str_lower ''hi'')"
    and "extract_research_topics ''hi'' = []"
    by code_simp+
  then show ?thesis
    by (simp add: create_execution_plan_def no_memories_def)
qed

text \<open>
  Claim C8, amended. For every query outside the planner's memory short-circuit, every
  complexity, every memory search result whose count is the number of its records, and
  every float arithmetic: the plan has no research step exactly when no research topic can
  be extracted from the query, or the memory result is non-empty, the mean of its
  similarity scores as the planner computes it in floating point (the float sum of the
  scores, divided by their number) exceeds the float \<^verbatim>\<open>0.8\<close>, and the complexity is
  simple. Otherwise its research steps are one per extracted topic, numbered from 1.
\<close>

theorem research_omitted_iff:
  assumes "\<not> any_in plan_memory_keywords (str_lower q)" and "count m = length (results m)"
  shows "(filter is_research_step (create_execution_plan fl q cx m) = [] \<longleftrightarrow>
           extract_research_topics q = [] \<or>
           (results m \<noteq> [] \<and> memory_confidence fl m > fl_literal_0_8 fl
              \<and> cx = COMPLEXITY_SIMPLE))
       \<and> (filter is_research_step (create_execution_plan fl q cx m) = [] \<or>
            filter is_research_step (create_execution_plan fl q cx m)
              = research_steps 1 (extract_research_topics q))"
  using assms
  by (auto simp add: plan_research_part needs_research_def research_steps_Nil)

text \<open>The amended claim at a simple query answered from a memory of score 0.875.\<close>

theorem research_omitted_iff_witness:
  "\<not> any_in plan_memory_keywords (str_lower cnn_query)
   \<and> count confident_memory = length (results confident_memory)
   \<and> extract_research_topics cnn_query \<noteq> []
   \<and> memory_confidence demo_floats confident_memory = 7 / 8
   \<and> fl_literal_0_8 demo_floats < 7 / 8
   \<and> filter is_research_step
        (create_execution_plan demo_floats cnn_query COMPLEXITY_SIMPLE confident_memory) = []"
proof -
  have h1: "\<not> any_in plan_memory_keywords (str_lower cnn_query)" by code_simp
  have h2: "count confident_memory = length (results confident_memory)"
    by (simp add: confident_memory_def)
  have h3: "extract_research_topics cnn_query \<noteq> []" by code_simp
  have h4: "results confident_memory \<noteq> []"
    "memory_confidence demo_floats confident_memory = 7 / 8"
    "fl_literal_0_8 demo_floats < 7 / 8"
    by (simp_all add: confident_memory_def memory_confidence_def demo_floats_def)
  from research_omitted_iff[OF h1 h2, of demo_floats COMPLEXITY_SIMPLE] h4
  have "filter is_research_step
          (create_execution_plan demo_floats cnn_query COMPLEXITY_SIMPLE confident_memory) = []"
    by simp
  with h1 h2 h3 h4 show ?thesis by simp
qed

section \<open>Comparison analysis\<close>

text \<open>
  Claim C9. For every comparison request whose data holds fewer than two research records,
  the analysis returns a result (it does not raise), whose confidence is 0.3 and whose
  comparison field is the sentence \<^verbatim>\<open>Insufficient data for comparison\<close>.
\<close>

theorem compare_insufficient_data:
  assumes "length data < 2"
  shows "\<exists>a. analyze other data ''comparison'' task = Some a
           \<and> a_confidence a = Some 0.3
           \<and> a_comparison a = Some ''Insufficient data for comparison''"
  using assms by (simp add: analyze_def compare_data_def empty_analysis_def)

text \<open>The claim at a single research record.\<close>

theorem compare_insufficient_data_witness:
  "length one_record < 2
   \<and> (\<exists>a. analyze (\<lambda>t d k. None) one_record ''comparison'' ''compare'' = Some a
           \<and> a_confidence a = Some 0.3
           \<and> a_comparison a = Some ''Insufficient data for comparison'')"
proof -
  have h: "length one_record < 2" by (simp add: one_record_def)
  from compare_insufficient_data[OF h] show ?thesis using h by blast
qed

section \<open>Storing\<close>

text \<open>What a store does to an insertion-ordered dictionary of lists.\<close>

lemma dict_values_concat_simps:
  "dict_values_concat [] = []"
  "dict_values_concat ((k, xs) # d) = xs @ dict_values_concat d"
  by (simp_all add: dict_values_concat_def)

lemma set_dict_append: "set (dict_values_concat (dict_append d k x)) = insert x (set (dict_values_concat d))"
  by (induction d k x rule: dict_append.induct) (auto simp: dict_values_concat_def)

lemma length_dict_append: "length (dict_values_concat (dict_append d k x)) = Suc (length (dict_values_concat d))"
  by (induction d k x rule: dict_append.induct) (auto simp: dict_values_concat_def)

lemma distinct_dict_append:
  "distinct (map f (dict_values_concat (dict_append d k x))) \<longleftrightarrow>
   distinct (map f (dict_values_concat d)) \<and> f x \<notin> f ` set (dict_values_concat d)"
  by (induction d k x rule: dict_append.induct)
     (auto simp: dict_values_concat_simps set_dict_append)

lemma map_of_dict_append:
  "map_of (dict_append d k x) k' =
     (if k' = k then Some ((case map_of d k of Some xs \<Rightarrow> xs | None \<Rightarrow> []) @ [x]) else map_of d k')"
  by (induction d k x rule: dict_append.induct) auto

text \<open>The result of a store and each field of the state after it.\<close>

lemma store_result_eq:
  "fst (store_memory hash now pl ag) =
     \<lparr>memory_id = next_id ag, st_status = ''stored'', st_memory_type = store_type pl\<rparr>"
  by (simp add: store_memory_def Let_def next_id_def store_type_def)

lemma store_counter: "memory_id_counter (snd (store_memory hash now pl ag)) = Suc (memory_id_counter ag)"
  by (simp add: store_memory_def Let_def)

lemma store_vector_store:
  "vector_store (snd (store_memory hash now pl ag)) = vs_add hash (next_id ag) (search_text pl) (vector_store ag)"
  by (simp add: store_memory_def Let_def next_id_def search_text_def store_content_def store_metadata_def)

lemma store_conversation_memory:
  "conversation_memory (snd (store_memory hash now pl ag)) =
     (if store_type pl = ''conversation'' then conversation_memory ag @ [new_record now pl ag]
      else conversation_memory ag)"
  by (simp add: store_memory_def Let_def next_id_def new_record_def store_type_def store_content_def store_metadata_def)

lemma store_knowledge_base:
  "knowledge_base (snd (store_memory hash now pl ag)) =
     (if store_type pl = ''knowledge''
      then dict_append (knowledge_base ag) (meta_get (store_metadata pl) ''topic'' ''general'') (new_record now pl ag)
      else knowledge_base ag)"
  by (simp add: store_memory_def Let_def next_id_def new_record_def store_type_def store_content_def store_metadata_def)

lemma store_agent_state_memory:
  "agent_state_memory (snd (store_memory hash now pl ag)) =
     (if store_type pl = ''agent_state''
      then dict_append (agent_state_memory ag) (meta_get (store_metadata pl) ''agent'' ''unknown'') (new_record now pl ag)
      else agent_state_memory ag)"
  by (simp add: store_memory_def Let_def next_id_def new_record_def store_type_def store_content_def store_metadata_def)

lemmas store_fields = store_counter store_vector_store store_conversation_memory store_knowledge_base
  store_agent_state_memory

lemma vs_add_fields:
  "vector_to_id (vs_add hash i t vs) = vector_to_id vs @ [i]"
  "index (vs_add hash i t vs) = index vs @ [text_to_vector hash (dimension vs) t]"
  "dimension (vs_add hash i t vs) = dimension vs"
  by (simp_all add: vs_add_def Let_def)

lemma all_memories_store_set:
  "set (all_memories (snd (store_memory hash now pl ag))) =
     (if store_type pl \<in> set valid_categories then insert (new_record now pl ag) (set (all_memories ag))
      else set (all_memories ag))"
  by (auto simp add: all_memories_def store_fields set_dict_append valid_categories_def)

lemma total_records_store:
  "total_records (snd (store_memory hash now pl ag)) =
     (if store_type pl \<in> set valid_categories then Suc (total_records ag) else total_records ag)"
  by (simp add: total_records_def store_fields length_dict_append valid_categories_def)

lemma distinct_all_memories_store:
  assumes "distinct (map mem_id (all_memories ag))"
    and "next_id ag \<notin> mem_id ` set (all_memories ag)"
  shows "distinct (map mem_id (all_memories (snd (store_memory hash now pl ag))))"
proof -
  have [simp]: "mem_id (new_record now pl ag) = next_id ag" by (simp add: new_record_def)
  from assms show ?thesis
    by (auto simp add: all_memories_def store_fields distinct_dict_append set_dict_append)
qed

text \<open>The invariant holds in every reachable state; in particular the next id is fresh.\<close>

lemma agent_inv_init: "agent_inv MemoryAgent"
  by (simp add: agent_inv_def MemoryAgent_def VectorStore_def all_memories_def
      dict_values_concat_def total_records_def)

lemma next_id_fresh:
  assumes "agent_inv ag"
  shows "next_id ag \<notin> mem_id ` set (all_memories ag)"
    and "next_id ag \<notin> set (vector_to_id (vector_store ag))"
proof -
  from assms have ids: "list_all (\<lambda>m. \<exists>k < memory_id_counter ag. mem_id m = ''mem_'' @ str_of_nat k) (all_memories ag)"
    and v: "vector_to_id (vector_store ag) = map (\<lambda>k. ''mem_'' @ str_of_nat k) [0..<memory_id_counter ag]"
    by (simp_all add: agent_inv_def)
  show "next_id ag \<notin> mem_id ` set (all_memories ag)"
  proof
    assume "next_id ag \<in> mem_id ` set (all_memories ag)"
    then obtain m where "m \<in> set (all_memories ag)" "mem_id m = next_id ag" by auto
    with ids obtain k where "k < memory_id_counter ag" "''mem_'' @ str_of_nat k = next_id ag"
      by (auto simp: list_all_iff)
    then show False by (auto simp add: next_id_def dest: str_of_nat_inj)
  qed
  show "next_id ag \<notin> set (vector_to_id (vector_store ag))"
    by (auto simp add: v next_id_def dest: str_of_nat_inj)
qed

lemma agent_inv_store:
  assumes "agent_inv ag"
  shows "agent_inv (snd (store_memory hash now pl ag))"
proof -
  let ?ag' = "snd (store_memory hash now pl ag)"
  from assms have v: "vector_to_id (vector_store ag) = map (\<lambda>k. ''mem_'' @ str_of_nat k) [0..<memory_id_counter ag]"
    and n: "length (index (vector_store ag)) = memory_id_counter ag"
    and ids: "list_all (\<lambda>m. \<exists>k < memory_id_counter ag. mem_id m = ''mem_'' @ str_of_nat k) (all_memories ag)"
    and d: "distinct (map mem_id (all_memories ag))"
    and sc: "list_all (\<lambda>m. similarity_score m = None \<and> match_score m = None) (all_memories ag)"
    and t: "total_records ag \<le> memory_id_counter ag"
    and dm: "dimension (vector_store ag) = VECTOR_DIMENSION"
    by (simp_all add: agent_inv_def)
  have 1: "vector_to_id (vector_store ?ag') = map (\<lambda>k. ''mem_'' @ str_of_nat k) [0..<memory_id_counter ?ag']"
    by (simp add: store_fields vs_add_fields v next_id_def)
  have 2: "length (index (vector_store ?ag')) = memory_id_counter ?ag'"
    by (simp add: store_fields vs_add_fields n)
  have 3: "list_all (\<lambda>m. \<exists>k < memory_id_counter ?ag'. mem_id m = ''mem_'' @ str_of_nat k) (all_memories ?ag')"
    using ids
    by (auto simp add: list_all_iff all_memories_store_set store_counter new_record_def next_id_def
        less_Suc_eq split: if_splits)
  have 4: "distinct (map mem_id (all_memories ?ag'))"
    using d next_id_fresh(1)[OF assms] by (rule distinct_all_memories_store)
  have 5: "list_all (\<lambda>m. similarity_score m = None \<and> match_score m = None) (all_memories ?ag')"
    using sc by (auto simp add: list_all_iff all_memories_store_set new_record_def split: if_splits)
  have 6: "total_records ?ag' \<le> memory_id_counter ?ag'"
    using t by (simp add: total_records_store store_counter)
  have 7: "dimension (vector_store ?ag') = VECTOR_DIMENSION"
    using dm by (simp add: store_fields vs_add_fields)
  from 1 2 3 4 5 6 7 show ?thesis unfolding agent_inv_def by blast
qed

lemma reachable_inv: "reachable hash ag \<Longrightarrow> agent_inv ag"
  by (induction rule: reachable.induct) (simp_all add: agent_inv_init agent_inv_store)

text \<open>Evaluation of the example requests.\<close>

lemma demo_types:
  "store_type first_answer = ''conversation''" "store_type second_answer = ''conversation''"
  "store_type cnn_fact = ''knowledge''" "store_type bogus_payload = ''bogus''"
  "meta_get (store_metadata cnn_fact) ''topic'' ''general'' = ''cnn''"
  by (simp_all add: store_type_def first_answer_def second_answer_def cnn_fact_def bogus_payload_def
      empty_payload_def store_metadata_def meta_get_def)

lemma demo_counters:
  "memory_id_counter agent0 = 0" "memory_id_counter agent1 = 1" "memory_id_counter agent2 = 2"
  by (simp_all add: agent0_def agent1_def agent2_def store_counter MemoryAgent_def)

lemma demo_ids:
  "str_of_nat 0 = ''0''" "str_of_nat (Suc 0) = ''1''" "str_of_nat 2 = ''2''"
  by (simp_all add: str_of_nat.simps[of 0] str_of_nat.simps[of "Suc 0"] str_of_nat.simps[of 2]
      digit_char_def digit_chars_def)

lemma demo_logs:
  "conversation_memory agent3 = [new_record demo_time first_answer agent0, new_record demo_time second_answer agent2]"
  "knowledge_base agent3 = [(''cnn'', [new_record demo_time cnn_fact agent1])]"
  "agent_state_memory agent3 = []"
  by (simp_all add: agent3_def agent2_def agent1_def store_fields demo_types)
     (simp_all add: agent0_def MemoryAgent_def)

lemma demo_record_fields:
  "mem_id (new_record demo_time first_answer agent0) = ''mem_0''"
  "mem_id (new_record demo_time cnn_fact agent1) = ''mem_1''"
  "mem_id (new_record demo_time second_answer agent2) = ''mem_2''"
  "timestamp (new_record now pl ag) = now"
  "mem_type (new_record now pl ag) = store_type pl"
  by (simp_all add: new_record_def next_id_def demo_counters demo_ids)


text \<open>
  Claim C10. In every reachable state, a store whose category is none of conversation,
  knowledge and agent_state still answers with status \<^verbatim>\<open>stored\<close> and the next id, which
  is fresh; it increments the id counter and adds the embedding of the searchable text to
  the index, while the three logs stay as they were; so afterwards the index holds
  strictly more entries than the logs hold records.
\<close>

theorem store_invalid_category:
  assumes "reachable hash ag" and "store_type pl \<notin> set valid_categories"
  shows "st_status (fst (store_memory hash now pl ag)) = ''stored''
    \<and> memory_id (fst (store_memory hash now pl ag)) = ''mem_'' @ str_of_nat (memory_id_counter ag)
    \<and> memory_id (fst (store_memory hash now pl ag)) \<notin> set (vector_to_id (vector_store ag))
    \<and> memory_id (fst (store_memory hash now pl ag)) \<notin> mem_id ` set (all_memories ag)
    \<and> memory_id_counter (snd (store_memory hash now pl ag)) = memory_id_counter ag + 1
    \<and> index (vector_store (snd (store_memory hash now pl ag)))
        = index (vector_store ag) @ [text_to_vector hash (dimension (vector_store ag)) (search_text pl)]
    \<and> conversation_memory (snd (store_memory hash now pl ag)) = conversation_memory ag
    \<and> knowledge_base (snd (store_memory hash now pl ag)) = knowledge_base ag
    \<and> agent_state_memory (snd (store_memory hash now pl ag)) = agent_state_memory ag
    \<and> total_records (snd (store_memory hash now pl ag))
        < vs_size (vector_store (snd (store_memory hash now pl ag)))"
proof -
  from assms(1) have inv: "agent_inv ag" by (rule reachable_inv)
  then have n: "length (index (vector_store ag)) = memory_id_counter ag"
    and t: "total_records ag \<le> memory_id_counter ag"
    by (simp_all add: agent_inv_def)
  from assms(2) have ne: "store_type pl \<noteq> ''conversation''" "store_type pl \<noteq> ''knowledge''"
    "store_type pl \<noteq> ''agent_state''"
    by (auto simp add: valid_categories_def)
  have "total_records (snd (store_memory hash now pl ag))
        < vs_size (vector_store (snd (store_memory hash now pl ag)))"
    using assms(2) n t
    by (simp add: total_records_store vs_size_def ntotal_def store_fields vs_add_fields)
  then show ?thesis
    using next_id_fresh[OF inv] ne
    by (simp add: store_result_eq store_fields vs_add_fields next_id_def)
qed

text \<open>The claim at the request with category \<^verbatim>\<open>bogus\<close>, sent to a fresh agent.\<close>

theorem store_invalid_category_witness:
  "reachable demo_hash agent0 \<and> store_type bogus_payload \<notin> set valid_categories
   \<and> st_status (fst (store_memory demo_hash demo_time bogus_payload agent0)) = ''stored''
   \<and> memory_id (fst (store_memory demo_hash demo_time bogus_payload agent0)) = ''mem_0''
   \<and> memory_id_counter (snd (store_memory demo_hash demo_time bogus_payload agent0)) = 1
   \<and> total_records (snd (store_memory demo_hash demo_time bogus_payload agent0)) = 0
   \<and> vs_size (vector_store (snd (store_memory demo_hash demo_time bogus_payload agent0))) = 1"
proof -
  have r: "reachable demo_hash agent0" unfolding agent0_def by (rule reachable_init)
  have b: "store_type bogus_payload \<notin> set valid_categories"
    by (simp add: demo_types valid_categories_def)
  have t: "total_records (snd (store_memory demo_hash demo_time bogus_payload agent0)) = 0"
    using store_invalid_category[OF r b, of demo_time]
    by (simp add: total_records_def agent0_def MemoryAgent_def dict_values_concat_def)
  have v: "vs_size (vector_store (snd (store_memory demo_hash demo_time bogus_payload agent0))) = 1"
    using store_invalid_category[OF r b, of demo_time]
    by (simp add: vs_size_def ntotal_def agent0_def MemoryAgent_def VectorStore_def)
  from store_invalid_category[OF r b, of demo_time] r b t v show ?thesis
    by (simp add: demo_counters demo_ids)
qed

text \<open>
  Claim C3, as stated, fails at the request with category \<^verbatim>\<open>bogus\<close>: the category is
  malformed, and the memory agent answers the store with status \<^verbatim>\<open>stored\<close> and the id
  \<^verbatim>\<open>mem_0\<close>, not with an error.
\<close>

theorem bogus_category_stored:
  "store_type bogus_payload \<notin> set valid_categories
   \<and> \<not> isl (process_message demo_hash demo_time bogus_payload agent0)
   \<and> mr_status (fst (projr (process_message demo_hash demo_time bogus_payload agent0))) = ''stored''
   \<and> mr_result (fst (projr (process_message demo_hash demo_time bogus_payload agent0)))
       = StoreResult \<lparr>memory_id = ''mem_0'', st_status = ''stored'', st_memory_type = ''bogus''\<rparr>"
  by (simp add: process_message_def bogus_payload_def empty_payload_def case_prod_unfold Let_def
      store_result_eq next_id_def demo_counters demo_ids store_type_def valid_categories_def)

text \<open>
  Claim C3, amended. For every category, content and metadata, a store answers with status
  \<^verbatim>\<open>stored\<close> and the next id \<^verbatim>\<open>mem_n\<close> (\<open>n\<close> the id counter, which it increments), and
  it indexes the searchable text (topic, a space, the content) under that id. When the
  category is conversation, knowledge or agent_state, it appends the record to that
  category's log (the list of the record's topic, or of its agent); for any other category
  it appends the record to no log, and signals nothing. (The dimension of the store is
  positive, as it is in every state of a memory agent.)
\<close>

theorem store_never_fails:
  assumes "0 < dimension (vector_store ag)"
  shows "st_status (fst (store_memory hash now pl ag)) = ''stored''
    \<and> memory_id (fst (store_memory hash now pl ag)) = ''mem_'' @ str_of_nat (memory_id_counter ag)
    \<and> memory_id_counter (snd (store_memory hash now pl ag)) = memory_id_counter ag + 1
    \<and> vector_to_id (vector_store (snd (store_memory hash now pl ag)))
        = vector_to_id (vector_store ag) @ [memory_id (fst (store_memory hash now pl ag))]
    \<and> index (vector_store (snd (store_memory hash now pl ag)))
        = index (vector_store ag) @ [text_to_vector hash (dimension (vector_store ag)) (search_text pl)]
    \<and> (store_type pl = ''conversation'' \<longrightarrow>
          conversation_memory (snd (store_memory hash now pl ag))
            = conversation_memory ag @ [new_record now pl ag])
    \<and> (store_type pl = ''knowledge'' \<longrightarrow>
          map_of (knowledge_base (snd (store_memory hash now pl ag)))
              (meta_get (store_metadata pl) ''topic'' ''general'')
            = Some ((case map_of (knowledge_base ag) (meta_get (store_metadata pl) ''topic'' ''general'') of
                       Some xs \<Rightarrow> xs | None \<Rightarrow> []) @ [new_record now pl ag]))
    \<and> (store_type pl = ''agent_state'' \<longrightarrow>
          map_of (agent_state_memory (snd (store_memory hash now pl ag)))
              (meta_get (store_metadata pl) ''agent'' ''unknown'')
            = Some ((case map_of (agent_state_memory ag) (meta_get (store_metadata pl) ''agent'' ''unknown'') of
                       Some xs \<Rightarrow> xs | None \<Rightarrow> []) @ [new_record now pl ag]))
    \<and> (store_type pl \<notin> set valid_categories \<longrightarrow>
          all_memories (snd (store_memory hash now pl ag)) = all_memories ag)"
  by (simp add: store_result_eq store_fields vs_add_fields next_id_def map_of_dict_append
      all_memories_def valid_categories_def)

text \<open>The amended claim at a knowledge record of topic \<^verbatim>\<open>cnn\<close>.\<close>

theorem store_never_fails_witness:
  "0 < dimension (vector_store agent1)
   \<and> store_type cnn_fact = ''knowledge''
   \<and> st_status (fst (store_memory demo_hash demo_time cnn_fact agent1)) = ''stored''
   \<and> memory_id (fst (store_memory demo_hash demo_time cnn_fact agent1)) = ''mem_1''
   \<and> map_of (knowledge_base (snd (store_memory demo_hash demo_time cnn_fact agent1))) ''cnn''
       = Some [new_record demo_time cnn_fact agent1]"
proof -
  have k: "knowledge_base agent1 = []"
    by (simp add: agent1_def store_fields demo_types agent0_def MemoryAgent_def)
  have d: "0 < dimension (vector_store agent1)"
    by (simp add: agent1_def store_fields vs_add_fields agent0_def MemoryAgent_def VectorStore_def
        VECTOR_DIMENSION_def)
  from store_never_fails[OF d, of demo_hash demo_time cnn_fact] d show ?thesis
    by (simp add: demo_types demo_counters demo_ids k)
qed

section \<open>Retrieval\<close>

text \<open>The descending sort is sorted, a permutation and stable.\<close>

lemma sort_reverse_sorted: "sorted_wrt (\<lambda>a b. f b \<le> f a) (sort_reverse f xs)"
proof -
  have "sorted (map f (sort_key f (rev xs)))" by (rule sorted_sort_key)
  then show ?thesis
    by (simp add: sort_reverse_def sorted_wrt_rev sorted_map)
qed

lemma sort_reverse_stable: "filter (\<lambda>y. f y = k) (sort_reverse f xs) = filter (\<lambda>y. f y = k) xs"
  by (simp add: sort_reverse_def sort_key_stable flip: rev_filter)


lemma length_sort_reverse: "length (sort_reverse f xs) = length xs"
  by (simp add: sort_reverse_def)


text \<open>
  Claim C2, as stated, fails after three stores within one second (a conversation record,
  a knowledge record, a conversation record). With the filter \<^verbatim>\<open>conversation\<close> and limit 1
  the code returns the record stored last, where insertion order puts the one stored first;
  with the filter \<^verbatim>\<open>all\<close> it returns both conversation records before the knowledge
  record that was stored between them.
\<close>

theorem retrieve_not_insertion_order:
  "map mem_id demo_history = [''mem_0'', ''mem_1'', ''mem_2'']
   \<and> map timestamp demo_history = [demo_time, demo_time, demo_time]
   \<and> set (all_memories agent3) = set demo_history
   \<and> map mem_id (memories (retrieve_memory
        (empty_payload\<lparr>memory_type := Some ''conversation'', limit := Some 1\<rparr>) agent3)) = [''mem_2'']
   \<and> map mem_id (retrieve_spec demo_history ''conversation'' 1) = [''mem_0'']
   \<and> map mem_id (memories (retrieve_memory
        (empty_payload\<lparr>memory_type := Some ''all'', limit := Some 5\<rparr>) agent3))
        = [''mem_0'', ''mem_2'', ''mem_1'']
   \<and> map mem_id (retrieve_spec demo_history ''all'' 5) = [''mem_0'', ''mem_1'', ''mem_2'']"
  by (simp add: demo_history_def demo_record_fields all_memories_def demo_logs dict_values_concat_def
      retrieve_memory_def retrieve_candidates_def last_n_def sort_reverse_def retrieve_spec_def
      demo_types valid_categories_def empty_payload_def insert_commute)

text \<open>
  Claim C2, amended. The candidates of a retrieval are the last \<open>limit\<close> records of the
  conversation log (all of them when the limit is 0), then the knowledge records topic by
  topic, then the agent-state records agent by agent, each part only when the filter names
  it or is \<^verbatim>\<open>all\<close>. The retrieval returns the first \<open>limit\<close> records of the candidates
  sorted descending by timestamp, where records of one timestamp keep the order they have
  among the candidates; the count it reports is the number of records returned.
\<close>

theorem retrieve_sorted_stable:
  "\<exists>rest.
     length (memories (retrieve_memory (pl\<lparr>memory_type := Some mtype, limit := Some lmt\<rparr>) ag))
       = min lmt (length (retrieve_candidates ag mtype lmt))
   \<and> rt_count (retrieve_memory (pl\<lparr>memory_type := Some mtype, limit := Some lmt\<rparr>) ag)
       = length (memories (retrieve_memory (pl\<lparr>memory_type := Some mtype, limit := Some lmt\<rparr>) ag))
   \<and> sorted_wrt (\<lambda>a b. timestamp b \<le> timestamp a)
        (memories (retrieve_memory (pl\<lparr>memory_type := Some mtype, limit := Some lmt\<rparr>) ag) @ rest)
   \<and> (\<forall>t. filter (\<lambda>m. timestamp m = t)
              (memories (retrieve_memory (pl\<lparr>memory_type := Some mtype, limit := Some lmt\<rparr>) ag) @ rest)
          = filter (\<lambda>m. timestamp m = t) (retrieve_candidates ag mtype lmt))"
proof -
  let ?c = "retrieve_candidates ag mtype lmt"
  let ?s = "sort_reverse timestamp ?c"
  have m: "memories (retrieve_memory (pl\<lparr>memory_type := Some mtype, limit := Some lmt\<rparr>) ag) = take lmt ?s"
    and c: "rt_count (retrieve_memory (pl\<lparr>memory_type := Some mtype, limit := Some lmt\<rparr>) ag) = length (take lmt ?s)"
    by (simp_all add: retrieve_memory_def Let_def)
  have "length (take lmt ?s) = min lmt (length ?c)"
    by (simp add: length_sort_reverse min.commute)
  moreover have "sorted_wrt (\<lambda>a b. timestamp b \<le> timestamp a) (take lmt ?s @ drop lmt ?s)"
    by (simp add: sort_reverse_sorted)
  moreover have "\<forall>t. filter (\<lambda>m. timestamp m = t) (take lmt ?s @ drop lmt ?s)
      = filter (\<lambda>m. timestamp m = t) ?c"
    by (simp only: append_take_drop_id sort_reverse_stable) simp
  ultimately show ?thesis unfolding m c by blast
qed

section \<open>Vector search\<close>

lemma l2sqr_nonneg: "0 \<le> l2sqr x y"
  unfolding l2sqr_def by (rule sum_list_nonneg) auto

lemma euclidean_distance_sq: "(euclidean_distance x y)\<^sup>2 = l2sqr x y"
  by (simp add: euclidean_distance_def l2sqr_nonneg)



lemma nearest_length: "length (nearest vectors q k) = min k (length vectors)"
  unfolding nearest_def by (simp add: min.commute)





text \<open>Evaluation of the example store: one entry for the text \<^verbatim>\<open>a\<close>, searched for \<^verbatim>\<open>b\<close>.\<close>

lemma words_a: "str_split (str_lower ''a'') = [''a'']" "str_split (str_lower ''b'') = [''b'']"
  "is_alnum (CHR ''a'')" "is_alnum (CHR ''b'')"
  "demo_hash ''a'' = 97" "demo_hash ''b'' = 98"
  by code_simp+

lemma vec_a: "text_to_vector demo_hash 2 ''a'' = [0, 1]"
  by (simp add: text_to_vector_def words_a add_word_def norm2_def Let_def numeral_2_eq_2)

lemma vec_b: "text_to_vector demo_hash 2 ''b'' = [1, 0]"
  by (simp add: text_to_vector_def words_a add_word_def norm2_def Let_def numeral_2_eq_2)

lemma demo_search: "vs_search demo_hash demo_store ''b'' 5 = Inr [(''mem_0'', 1 / 3)]"
  by (simp add: vs_search_def demo_store_def vs_add_def VectorStore_def ntotal_def Let_def
      vec_a vec_b index_search_def nearest_def l2sqr_def)

text \<open>
  Claim C4, in a two-dimensional store holding the text \<^verbatim>\<open>a\<close>, searched for \<^verbatim>\<open>b\<close>. The
  Euclidean distance d of the two vectors is the square root of 2. The score returned is
  1/3, which is 1/(1 + d * d): the flat index reports the squared distance, and the code
  passes it to 1/(1 + dist) as it is. The score of the claim, 1/(1 + d), is larger by more
  than 1/20, far beyond what the rounding of the code's float arithmetic (which the
  real-valued model leaves out) can account for.
\<close>

theorem score_not_euclidean:
  "vs_search demo_hash demo_store ''b'' 5 = Inr [(''mem_0'', 1 / 3)]
   \<and> index demo_store = [text_to_vector demo_hash 2 ''a'']
   \<and> euclidean_distance (text_to_vector demo_hash 2 ''b'') (text_to_vector demo_hash 2 ''a'') = sqrt 2
   \<and> (1 / 3 :: real) = 1 / (1 + (sqrt 2)\<^sup>2)
   \<and> (1 / 3 :: real) + 1 / 20 < 1 / (1 + sqrt 2)"
proof -
  have "sqrt 2 \<le> 3 / 2"
    by (rule real_le_lsqrt) (simp_all add: power2_eq_square)
  then have "1 / (5 / 2) \<le> 1 / (1 + sqrt 2)"
    by (intro divide_left_mono) (simp_all add: add_pos_nonneg)
  then have "(1 / 3 :: real) + 1 / 20 < 1 / (1 + sqrt 2)" by simp
  moreover have "index demo_store = [text_to_vector demo_hash 2 ''a'']"
    by (simp add: demo_store_def vs_add_def VectorStore_def Let_def)
  moreover have "euclidean_distance (text_to_vector demo_hash 2 ''b'') (text_to_vector demo_hash 2 ''a'') = sqrt 2"
    by (simp add: euclidean_distance_def l2sqr_def vec_a vec_b)
  ultimately show ?thesis using demo_search by simp
qed

section \<open>Hybrid search\<close>














section \<open>The empty query\<close>








end
